theory Spec2Isabelle
  imports Main "HOL-Library.Word" "HOL-Library.AList"
begin

section \<open>JSON documents\<close>

text \<open>
  \<^verbatim>\<open>json::Value\<close> as far as the serializer builds it: \<^verbatim>\<open>nullptr\<close>, an unsigned 64-bit
  number, a string, an array and an object. A \<^verbatim>\<open>json::Object\<close> is a list of members;
  the assignment \<^verbatim>\<open>result["k"] = v\<close> is \<open>AList.update ''k'' v result\<close>, which replaces the
  member \<open>k\<close> when it is there and adds it otherwise.
\<close>

datatype json =
    JNull
  | JUInt "64 word"
  | JString string
  | JArray "json list"
  | JObject "(string \<times> json) list"

type_synonym json_object = "(string \<times> json) list"

section \<open>The constants of the input\<close>

text \<open>
  An identity (\<^verbatim>\<open>const BasicBlock *\<close>, \<^verbatim>\<open>const Instruction *\<close>, \<^verbatim>\<open>const Argument *\<close>,
  \<^verbatim>\<open>Function *\<close>) is an address.
\<close>

type_synonym addr = nat

datatype ty =
    VoidTy
  | IntegerTy nat
  | FloatingPointTy nat
  | PointerTy
  | TokenTy
  | TargetExtTy string
  | LabelTy
  | ArrayTy nat ty
  | VectorTy nat ty
  | StructTy "ty list"
  | FunctionTy ty "ty list" bool

text \<open>
  \<^verbatim>\<open>APInt\<close>: a bit width and the unsigned value of the bits. The three operations
  the serializer calls compare and clamp that unsigned value.
\<close>

datatype APInt = APInt (getBitWidth: nat) (getZExtValue: nat)

definition UINT64_MAX :: "64 word" where
  "UINT64_MAX = 18446744073709551615"

definition ugt :: "APInt \<Rightarrow> 64 word \<Rightarrow> bool" where
  "ugt a RHS = (unat RHS < getZExtValue a)"

definition getLimitedValue :: "APInt \<Rightarrow> 64 word \<Rightarrow> 64 word" where
  "getLimitedValue a Limit = (if ugt a Limit then Limit else of_nat (getZExtValue a))"

text \<open>\<^verbatim>\<open>APFloat\<close>: the semantics (as a width) and the bits; its rendering is the library's.\<close>

datatype APFloat = APFloat nat nat

datatype opcode =
    Unreachable | Trunc | ZExt | SExt | PtrToInt | IntToPtr | BitCast | AddrSpaceCast
  | GetElementPtr | Add | Sub | Mul | Shl | Xor | ICmp | Select | OtherOpcode nat

text \<open>
  The subclasses of \<^verbatim>\<open>Constant\<close> that \<^verbatim>\<open>serialize_const\<close> tells apart with \<^verbatim>\<open>isa\<close>, one
  constructor each, with the Constant's type first. \<open>PoisonValue\<close> is a subclass of
  \<open>UndefValue\<close>. \<open>OtherConstantData\<close>, \<open>OtherConstantAggregate\<close>, \<open>OtherGlobalValue\<close>
  and \<open>OtherConstant\<close> stand for any further subclass of \<^verbatim>\<open>ConstantData\<close>,
  \<^verbatim>\<open>ConstantAggregate\<close>, \<^verbatim>\<open>GlobalValue\<close> and \<^verbatim>\<open>Constant\<close>: what reaches the final \<^verbatim>\<open>else\<close>
  of each chain. A data sequence holds its elements as the constants that
  \<^verbatim>\<open>getElementAsConstant(i)\<close> returns, an aggregate and a constant expression hold their
  operands, a global value holds its name (\<^verbatim>\<open>hasName\<close>, \<^verbatim>\<open>getName\<close>) and what defines
  it: the initializer of a variable, the body of a function (by address), the aliasee
  of an alias, the resolver of an indirect function.
\<close>

datatype Constant =
    DSOLocalEquivalent ty
  | NoCFIValue ty
  | ConstantInt ty APInt
  | ConstantFP ty APFloat
  | ConstantPointerNull ty
  | ConstantTokenNone ty
  | ConstantTargetNone ty
  | UndefValue ty
  | PoisonValue ty
  | ConstantAggregateZero ty
  | ConstantDataArray ty "Constant list"
  | ConstantDataVector ty "Constant list"
  | OtherConstantData ty
  | BlockAddress ty addr addr
  | ConstantArray ty "Constant list"
  | ConstantStruct ty "Constant list"
  | ConstantVector ty "Constant list"
  | OtherConstantAggregate ty "Constant list"
  | GlobalVariable ty "string option" "Constant option"
  | Function ty "string option" addr
  | GlobalAlias ty "string option" Constant
  | GlobalIFunc ty "string option" Constant
  | OtherGlobalValue ty "string option"
  | ConstantExpr ty opcode "Constant list"
  | OtherConstant ty

fun getType :: "Constant \<Rightarrow> ty" where
  "getType (DSOLocalEquivalent t) = t"
| "getType (NoCFIValue t) = t"
| "getType (ConstantInt t _) = t"
| "getType (ConstantFP t _) = t"
| "getType (ConstantPointerNull t) = t"
| "getType (ConstantTokenNone t) = t"
| "getType (ConstantTargetNone t) = t"
| "getType (UndefValue t) = t"
| "getType (PoisonValue t) = t"
| "getType (ConstantAggregateZero t) = t"
| "getType (ConstantDataArray t _) = t"
| "getType (ConstantDataVector t _) = t"
| "getType (OtherConstantData t) = t"
| "getType (BlockAddress t _ _) = t"
| "getType (ConstantArray t _) = t"
| "getType (ConstantStruct t _) = t"
| "getType (ConstantVector t _) = t"
| "getType (OtherConstantAggregate t _) = t"
| "getType (GlobalVariable t _ _) = t"
| "getType (Function t _ _) = t"
| "getType (GlobalAlias t _ _) = t"
| "getType (GlobalIFunc t _ _) = t"
| "getType (OtherGlobalValue t _) = t"
| "getType (ConstantExpr t _ _) = t"
| "getType (OtherConstant t) = t"

section \<open>Logging and aborts\<close>

text \<open>
  The logger's levels (\<^verbatim>\<open>enum Level\<close>; its last member \<^verbatim>\<open>None\<close> is \<open>NoLevel\<close> here) and
  a record of one call of \<^verbatim>\<open>Logger::record\<close>: the level, the format string and the
  values formatted into it.
\<close>

datatype Level = Debug | Info | Warning | Error | NoLevel

datatype log_arg = ArgUnsigned nat | ArgConstant Constant

type_synonym log_record = "Level \<times> string \<times> log_arg list"

text \<open>
  What ends a run: a call of \<^verbatim>\<open>LOG->fatal\<close> (\<open>LogFatal\<close>, with the message), an
  assertion that fails (\<^verbatim>\<open>assert(res.second)\<close>) and the \<^verbatim>\<open>std::out_of_range\<close> that
  \<^verbatim>\<open>at\<close> raises for a missing key, which nothing in the serializer catches.
\<close>

text \<open>
  Modelled from the spec: \<^verbatim>\<open>LOG->fatal\<close>. The logger under \<^verbatim>\<open>src/\<close> declares \<^verbatim>\<open>debug\<close>,
  \<^verbatim>\<open>info\<close>, \<^verbatim>\<open>warning\<close> and \<^verbatim>\<open>error\<close> only. The specification gives the missing member:
  \<^verbatim>\<open>fatal(message)\<close> aborts the current serialization, where \<^verbatim>\<open>error(message)\<close> is
  recoverable and continues. So a call of \<^verbatim>\<open>LOG->fatal\<close> is the abort \<open>LogFatal\<close>, and no
  statement after it runs.
\<close>

datatype abort = LogFatal string "log_arg list" | AssertionFailure | OutOfRange

section \<open>The function serialization context\<close>

text \<open>
  \<^verbatim>\<open>FunctionSerializationContext\<close> owns three label tables (the members
  \<^verbatim>\<open>block_labels_\<close>, \<^verbatim>\<open>inst_labels_\<close> and \<^verbatim>\<open>arg_labels_\<close>). The source uses them through
  \<^verbatim>\<open>size()\<close>, \<^verbatim>\<open>emplace(key, value)\<close> (whose \<^verbatim>\<open>.second\<close> tells whether the key was
  inserted) and \<^verbatim>\<open>at(key)\<close>, the interface of \<^verbatim>\<open>std::map\<close>. A table is an association
  list in insertion order; \<open>emplace\<close> is the only way it grows, so keys stay distinct
  and its length is the number of keys. A label is a \<^verbatim>\<open>uint64_t\<close> read from
  \<^verbatim>\<open>size()\<close>; a table never holds \<open>2 ^ 64\<close> entries, so labels are naturals.
\<close>

type_synonym label_map = "(addr \<times> nat) list"

record FunctionSerializationContext =
  block_labels :: label_map
  inst_labels :: label_map
  arg_labels :: label_map

text \<open>A default-constructed context: \<^verbatim>\<open>FunctionSerializationContext ctxt;\<close>\<close>

definition fresh_context :: FunctionSerializationContext where
  "fresh_context = \<lparr>block_labels = [], inst_labels = [], arg_labels = []\<rparr>"

text \<open>\<^verbatim>\<open>m.emplace(k, v)\<close>: inserts when \<open>k\<close> is absent, leaves the table as it is otherwise.\<close>

definition emplace :: "label_map \<Rightarrow> addr \<Rightarrow> nat \<Rightarrow> label_map \<times> bool" where
  "emplace m k v = (case map_of m k of
       Some _ \<Rightarrow> (m, False)
     | None \<Rightarrow> (m @ [(k, v)], True))"

text \<open>\<^verbatim>\<open>m.at(k)\<close>\<close>

definition at :: "label_map \<Rightarrow> addr \<Rightarrow> abort + nat" where
  "at m k = (case map_of m k of None \<Rightarrow> Inl OutOfRange | Some v \<Rightarrow> Inr v)"

definition add_block ::
  "FunctionSerializationContext \<Rightarrow> addr \<Rightarrow> abort + FunctionSerializationContext" where
  "add_block ctxt block =
     (let index = length (block_labels ctxt);
          res = emplace (block_labels ctxt) block index
      in if snd res then Inr (ctxt\<lparr>block_labels := fst res\<rparr>) else Inl AssertionFailure)"

definition add_instruction ::
  "FunctionSerializationContext \<Rightarrow> addr \<Rightarrow> abort + FunctionSerializationContext" where
  "add_instruction ctxt inst =
     (let index = length (inst_labels ctxt);
          res = emplace (inst_labels ctxt) inst index
      in if snd res then Inr (ctxt\<lparr>inst_labels := fst res\<rparr>) else Inl AssertionFailure)"

definition add_argument ::
  "FunctionSerializationContext \<Rightarrow> addr \<Rightarrow> abort + FunctionSerializationContext" where
  "add_argument ctxt arg =
     (let index = length (arg_labels ctxt);
          res = emplace (arg_labels ctxt) arg index
      in if snd res then Inr (ctxt\<lparr>arg_labels := fst res\<rparr>) else Inl AssertionFailure)"

definition get_block :: "FunctionSerializationContext \<Rightarrow> addr \<Rightarrow> abort + nat" where
  "get_block ctxt block = at (block_labels ctxt) block"

definition get_instruction :: "FunctionSerializationContext \<Rightarrow> addr \<Rightarrow> abort + nat" where
  "get_instruction ctxt inst = at (inst_labels ctxt) inst"

definition get_argument :: "FunctionSerializationContext \<Rightarrow> addr \<Rightarrow> abort + nat" where
  "get_argument ctxt arg = at (arg_labels ctxt) arg"

text \<open>
  A caller's sequence of registrations, in any interleaving of the three kinds; the
  first abort ends it.
\<close>

datatype registration = RegBlock addr | RegInstruction addr | RegArgument addr

fun register :: "FunctionSerializationContext \<Rightarrow> registration
    \<Rightarrow> abort + FunctionSerializationContext" where
  "register ctxt (RegBlock b) = add_block ctxt b"
| "register ctxt (RegInstruction i) = add_instruction ctxt i"
| "register ctxt (RegArgument a) = add_argument ctxt a"

fun register_all :: "FunctionSerializationContext \<Rightarrow> registration list
    \<Rightarrow> abort + FunctionSerializationContext" where
  "register_all ctxt [] = Inr ctxt"
| "register_all ctxt (r # rs) =
     (case register ctxt r of Inl e \<Rightarrow> Inl e | Inr ctxt' \<Rightarrow> register_all ctxt' rs)"

fun blocks_of :: "registration list \<Rightarrow> addr list" where
  "blocks_of [] = []"
| "blocks_of (RegBlock b # rs) = b # blocks_of rs"
| "blocks_of (_ # rs) = blocks_of rs"

fun instructions_of :: "registration list \<Rightarrow> addr list" where
  "instructions_of [] = []"
| "instructions_of (RegInstruction i # rs) = i # instructions_of rs"
| "instructions_of (_ # rs) = instructions_of rs"

fun arguments_of :: "registration list \<Rightarrow> addr list" where
  "arguments_of [] = []"
| "arguments_of (RegArgument a # rs) = a # arguments_of rs"
| "arguments_of (_ # rs) = arguments_of rs"

text \<open>The table that registering the keys \<open>ks\<close>, in this order, builds on top of \<open>m\<close>.\<close>

definition labelled :: "label_map \<Rightarrow> addr list \<Rightarrow> label_map" where
  "labelled m ks = m @ zip ks [length m ..< length m + length ks]"


section \<open>The session: the logger, the module and the synthetic scope\<close>

text \<open>
  The module and what it owns live in a store: functions, basic blocks and
  instructions, each kind in a list of its own, an object's address being its index.
  Creating an object appends it, so its address is the length of the list before. A
  function lists its blocks, a block its instructions, the module its functions, all
  by address and in order.
\<close>

datatype linkage = ExternalLinkage | InternalLinkage | PrivateLinkage | OtherLinkage nat

datatype operand = OpConstant Constant | OpInstruction addr | OpArgument addr | OpBlock addr

text \<open>What an instruction computes: its opcode, its result type and its operands.\<close>

record instruction =
  inst_opcode :: opcode
  inst_type :: ty
  inst_operands :: "operand list"

record llvm_instruction =
  inst_shape :: instruction
  inst_parent :: "addr option"

record llvm_basic_block =
  bb_name :: string
  bb_parent :: "addr option"
  bb_insts :: "addr list"

record llvm_function =
  fn_name :: string
  fn_type :: ty
  fn_linkage :: linkage
  fn_blocks :: "addr list"

record llvm_module =
  mod_name :: string
  FunctionList :: "addr list"

text \<open>
  The state one session works on: the calls the global logger \<^verbatim>\<open>LOG\<close> has recorded,
  the store, the module handed to \<^verbatim>\<open>prepare_for_serialization\<close>, and the three global
  pointers \<^verbatim>\<open>dummy_block\<close>, \<^verbatim>\<open>dummy_function\<close> and \<^verbatim>\<open>dummy_instruction\<close>, \<open>None\<close> for
  \<^verbatim>\<open>nullptr\<close>.
\<close>

record session =
  LOG :: "log_record list"
  function_store :: "llvm_function list"
  block_store :: "llvm_basic_block list"
  inst_store :: "llvm_instruction list"
  the_module :: llvm_module
  dummy_block :: "addr option"
  dummy_function :: "addr option"
  dummy_instruction :: "addr option"

text \<open>\<^verbatim>\<open>LOG->error(fmt, vals...)\<close> records the message at level \<open>Error\<close> and returns.\<close>

definition error :: "string \<Rightarrow> log_arg list \<Rightarrow> session \<Rightarrow> session" where
  "error fmt vals s = s\<lparr>LOG := LOG s @ [(Error, fmt, vals)]\<rparr>"





text \<open>The list \<open>xs\<close> with \<open>x\<close> put in front of the first \<open>p\<close>.\<close>

definition insert_before :: "addr \<Rightarrow> addr \<Rightarrow> addr list \<Rightarrow> addr list" where
  "insert_before p x xs = takeWhile (\<lambda>y. y \<noteq> p) xs @ x # dropWhile (\<lambda>y. y \<noteq> p) xs"

text \<open>
  Where \<^verbatim>\<open>getAsInstruction(InsertBefore)\<close> puts the new instruction: nowhere for a null
  pointer, otherwise in front of \<open>InsertBefore\<close> in the block that holds it. (A pointer
  to no instruction of the store, or to one in no block of the store, is not a state
  that \<^verbatim>\<open>prepare_for_serialization\<close> leaves; the new instruction then stays outside
  every block.)
\<close>

definition insertion_point :: "addr option \<Rightarrow> session \<Rightarrow> (addr \<times> addr) option" where
  "insertion_point InsertBefore s =
     (case InsertBefore of
        None \<Rightarrow> None
      | Some p \<Rightarrow>
          if p < length (inst_store s)
          then (case inst_parent (inst_store s ! p) of
                  None \<Rightarrow> None
                | Some b \<Rightarrow> if b < length (block_store s) then Some (p, b) else None)
          else None)"

text \<open>
  \<^verbatim>\<open>expr.getAsInstruction(InsertBefore)\<close>: a new instruction with the opcode, the type and
  the operands of the expression, inserted at the insertion point.
\<close>

definition getAsInstruction ::
  "ty \<Rightarrow> opcode \<Rightarrow> Constant list \<Rightarrow> addr option \<Rightarrow> session \<Rightarrow> addr \<times> session" where
  "getAsInstruction t opc ops InsertBefore s =
     (let i = length (inst_store s);
          shape = \<lparr>inst_opcode = opc, inst_type = t, inst_operands = map OpConstant ops\<rparr>;
          bs = block_store s
      in case insertion_point InsertBefore s of
           None \<Rightarrow>
             (i, s\<lparr>inst_store := inst_store s @ [\<lparr>inst_shape = shape, inst_parent = None\<rparr>]\<rparr>)
         | Some (p, b) \<Rightarrow>
             (i, s\<lparr>inst_store := inst_store s @ [\<lparr>inst_shape = shape, inst_parent = Some b\<rparr>],
                   block_store :=
                     bs[b := (bs ! b)\<lparr>bb_insts := insert_before p i (bb_insts (bs ! b))\<rparr>]\<rparr>))"

section \<open>The collaborators\<close>

text \<open>
  What the serializer of constants uses and \<^verbatim>\<open>src/\<close> does not define: the option
  \<^verbatim>\<open>OPT_MAX_BITS_FOR_INT\<close>, the type encoder \<^verbatim>\<open>serialize_type\<close>, the instruction encoder
  \<^verbatim>\<open>FunctionSerializationContext::serialize_inst\<close> and the library's rendering of a
  floating point value, \<^verbatim>\<open>APFloat::toString\<close>. They are parameters.
\<close>

text \<open>
  Modelled from the spec: \<^verbatim>\<open>serialize_type\<close> and \<^verbatim>\<open>serialize_inst\<close>, by their interfaces in
  the specification: \<^verbatim>\<open>serialize_type(value) -> TypeDescriptor\<close> and
  \<^verbatim>\<open>serialize_inst(instruction, context) -> InstructionEncoding\<close>, the latter requiring
  labels in the context for what the instruction refers to. The instruction encoder
  is a function of the context and of what the instruction computes, which ends with
  an encoding or with an abort; it leaves the session as it is.
\<close>

record externals =
  OPT_MAX_BITS_FOR_INT :: nat
  serialize_type :: "ty \<Rightarrow> json"
  serialize_inst :: "FunctionSerializationContext \<Rightarrow> instruction \<Rightarrow> abort + json_object"
  toString :: "APFloat \<Rightarrow> string"

section \<open>The serializer of constants\<close>

text \<open>
  Every function takes the session and returns it with either the abort that ended
  the run or the \<^verbatim>\<open>json::Object\<close> it built.
\<close>

type_synonym 'a outcome = "session \<times> (abort + 'a)"

text \<open>
  Well-formed UTF-8, as \<^verbatim>\<open>llvm::json::isUTF8\<close> decides it on the bytes of a string: a byte
  below \<open>0x80\<close>, or a lead byte \<open>0xC2\<close> to \<open>0xF4\<close> followed by the one, two or three
  continuation bytes it announces, with no overlong form, no surrogate and nothing
  above \<open>U+10FFFF\<close>.
\<close>

definition continuation :: "nat \<Rightarrow> bool" where
  "continuation b = (0x80 \<le> b \<and> b \<le> 0xBF)"

fun isLegalUTF8String :: "nat list \<Rightarrow> bool" where
  "isLegalUTF8String [] = True"
| "isLegalUTF8String (b0 # bs) =
     (if b0 < 0x80 then isLegalUTF8String bs
      else if b0 < 0xC2 then False
      else if b0 < 0xE0 then
        (case bs of
           b1 # r \<Rightarrow> continuation b1 \<and> isLegalUTF8String r
         | _ \<Rightarrow> False)
      else if b0 < 0xF0 then
        (case bs of
           b1 # b2 # r \<Rightarrow>
             continuation b1 \<and> (b0 = 0xE0 \<longrightarrow> 0xA0 \<le> b1) \<and> (b0 = 0xED \<longrightarrow> b1 \<le> 0x9F)
             \<and> continuation b2 \<and> isLegalUTF8String r
         | _ \<Rightarrow> False)
      else if b0 \<le> 0xF4 then
        (case bs of
           b1 # b2 # b3 # r \<Rightarrow>
             continuation b1 \<and> (b0 = 0xF0 \<longrightarrow> 0x90 \<le> b1) \<and> (b0 = 0xF4 \<longrightarrow> b1 \<le> 0x8F)
             \<and> continuation b2 \<and> continuation b3 \<and> isLegalUTF8String r
         | _ \<Rightarrow> False)
      else False)"

definition isUTF8 :: "string \<Rightarrow> bool" where
  "isUTF8 S = isLegalUTF8String (map of_char S)"

text \<open>
  The conversion of a string to a \<^verbatim>\<open>json::Value\<close>, which the assignments
  \<^verbatim>\<open>result["name"] = val.getName()\<close> and \<^verbatim>\<open>result["value"] = dump\<close> go through: the
  constructor checks \<^verbatim>\<open>isUTF8\<close> and, for a string that is not well-formed, runs
  \<^verbatim>\<open>assert(false && "Invalid UTF-8 in value used as JSON")\<close>. (Where assertions are
  compiled out it goes on with the string repaired by \<^verbatim>\<open>fixUTF8\<close>, every ill-formed
  part replaced by \<open>U+FFFD\<close>. Assertions are taken as written, here as in \<^verbatim>\<open>add_block\<close>.)
\<close>

definition json_Value :: "string \<Rightarrow> abort + json" where
  "json_Value V = (if isUTF8 V then Inr (JString V) else Inl AssertionFailure)"

definition serialize_const_ref_global :: "string option \<Rightarrow> session \<Rightarrow> json_object outcome" where
  "serialize_const_ref_global name s =
     (let result = []
      in case name of
           Some n \<Rightarrow>
             (case json_Value n of
                Inl e \<Rightarrow> (s, Inl e)
              | Inr v \<Rightarrow> (s, Inr (AList.update ''name'' v result)))
         | None \<Rightarrow> (s, Inr result))"

definition serialize_const_ref_global_variable ::
  "string option \<Rightarrow> session \<Rightarrow> json_object outcome" where
  "serialize_const_ref_global_variable name s = serialize_const_ref_global name s"

definition serialize_const_ref_function ::
  "string option \<Rightarrow> session \<Rightarrow> json_object outcome" where
  "serialize_const_ref_function name s = serialize_const_ref_global name s"

definition serialize_const_ref_global_alias ::
  "string option \<Rightarrow> session \<Rightarrow> json_object outcome" where
  "serialize_const_ref_global_alias name s = serialize_const_ref_global name s"

definition serialize_const_ref_interface ::
  "string option \<Rightarrow> session \<Rightarrow> json_object outcome" where
  "serialize_const_ref_interface name s = serialize_const_ref_global name s"

definition serialize_const_data_int :: "externals \<Rightarrow> APInt \<Rightarrow> session \<Rightarrow> json_object outcome" where
  "serialize_const_data_int ext val s =
     (let s1 = (if getBitWidth val > OPT_MAX_BITS_FOR_INT ext
                then error ''constant integer width exceeds limit: {0}''
                       [ArgUnsigned (getBitWidth val)] s
                else s)
      in if ugt val UINT64_MAX
         then (s1, Inl (LogFatal ''constant integer value exceeds limit: {0}''
                          [ArgUnsigned (getZExtValue val)]))
         else (s1, Inr (AList.update ''value'' (JUInt (getLimitedValue val UINT64_MAX)) [])))"

definition serialize_const_data_float ::
  "externals \<Rightarrow> APFloat \<Rightarrow> session \<Rightarrow> json_object outcome" where
  "serialize_const_data_float ext val s =
     (let dump = toString ext val
      in case json_Value dump of
           Inl e \<Rightarrow> (s, Inl e)
         | Inr v \<Rightarrow> (s, Inr (AList.update ''value'' v [])))"

definition serialize_const_expr ::
  "externals \<Rightarrow> ty \<Rightarrow> opcode \<Rightarrow> Constant list \<Rightarrow> session \<Rightarrow> json_object outcome" where
  "serialize_const_expr ext t opc ops s =
     (let ctxt = fresh_context;
          (inst, s1) = getAsInstruction t opc ops (dummy_instruction s) s
      in case serialize_inst ext ctxt (inst_shape (inst_store s1 ! inst)) of
           Inl e \<Rightarrow> (s1, Inl e)
         | Inr i \<Rightarrow> (s1, Inr (AList.update ''inst'' (JObject i) [])))"

text \<open>\<^verbatim>\<open>result[tag] = payload;\<close> on the empty object, when computing the payload returned.\<close>

fun tagged :: "string \<Rightarrow> json_object outcome \<Rightarrow> json_object outcome" where
  "tagged tag (s, Inl e) = (s, Inl e)"
| "tagged tag (s, Inr payload) = (s, Inr (AList.update tag (JObject payload) []))"

text \<open>
  The two loops run over the elements in index order and push each encoding at the
  back of \<^verbatim>\<open>elements\<close>; an abort inside an element ends the loop. (The counter is an
  \<^verbatim>\<open>unsigned\<close>; no constant has \<open>2 ^ 32\<close> elements.)
\<close>

function (sequential) serialize_constant :: "externals \<Rightarrow> Constant \<Rightarrow> session \<Rightarrow> json_object outcome"
  and serialize_const :: "externals \<Rightarrow> Constant \<Rightarrow> session \<Rightarrow> json_object outcome"
  and data_sequence_loop ::
    "externals \<Rightarrow> Constant list \<Rightarrow> json list \<Rightarrow> session \<Rightarrow> (json list) outcome"
  and serialize_const_data_sequence ::
    "externals \<Rightarrow> Constant list \<Rightarrow> session \<Rightarrow> json_object outcome"
  and pack_aggregate_loop ::
    "externals \<Rightarrow> Constant list \<Rightarrow> json list \<Rightarrow> session \<Rightarrow> (json list) outcome"
  and serialize_const_pack_aggregate ::
    "externals \<Rightarrow> Constant list \<Rightarrow> session \<Rightarrow> json_object outcome"
  and serialize_const_data_array ::
    "externals \<Rightarrow> Constant list \<Rightarrow> session \<Rightarrow> json_object outcome"
  and serialize_const_data_vector ::
    "externals \<Rightarrow> Constant list \<Rightarrow> session \<Rightarrow> json_object outcome"
  and serialize_const_pack_array ::
    "externals \<Rightarrow> Constant list \<Rightarrow> session \<Rightarrow> json_object outcome"
  and serialize_const_pack_struct ::
    "externals \<Rightarrow> Constant list \<Rightarrow> session \<Rightarrow> json_object outcome"
  and serialize_const_pack_vector ::
    "externals \<Rightarrow> Constant list \<Rightarrow> session \<Rightarrow> json_object outcome"
where
  "serialize_constant ext val s =
     (let result = AList.update ''ty'' (serialize_type ext (getType val)) []
      in case serialize_const ext val s of
           (s1, Inl e) \<Rightarrow> (s1, Inl e)
         | (s1, Inr repr) \<Rightarrow> (s1, Inr (AList.update ''repr'' (JObject repr) result)))"

| "serialize_const ext (DSOLocalEquivalent t) s =
     (s, Inl (LogFatal ''serializing a dso_local marker'' []))"
| "serialize_const ext (NoCFIValue t) s =
     (s, Inl (LogFatal ''serializing a no-CFI marker'' []))"

| "serialize_const ext (ConstantInt t v) s =
     tagged ''Int'' (serialize_const_data_int ext v s)"
| "serialize_const ext (ConstantFP t v) s =
     tagged ''Float'' (serialize_const_data_float ext v s)"
| "serialize_const ext (ConstantPointerNull t) s =
     (s, Inr (AList.update ''Null'' JNull []))"
| "serialize_const ext (ConstantTokenNone t) s =
     (s, Inr (AList.update ''None'' JNull []))"
| "serialize_const ext (ConstantTargetNone t) s =
     (s, Inr (AList.update ''Extension'' JNull []))"
| "serialize_const ext (UndefValue t) s =
     (s, Inr (AList.update ''Undef'' JNull []))"
| "serialize_const ext (PoisonValue t) s =
     (s, Inr (AList.update ''Undef'' JNull []))"
| "serialize_const ext (ConstantAggregateZero t) s =
     (s, Inr (AList.update ''Default'' JNull []))"
| "serialize_const ext (ConstantDataArray t elems) s =
     tagged ''Array'' (serialize_const_data_array ext elems s)"
| "serialize_const ext (ConstantDataVector t elems) s =
     tagged ''Vector'' (serialize_const_data_vector ext elems s)"
| "serialize_const ext (OtherConstantData t) s =
     (s, Inl (LogFatal ''unknown constant data: {0}'' [ArgConstant (OtherConstantData t)]))"

| "serialize_const ext (BlockAddress t f b) s =
     (s, Inr (AList.update ''PC'' JNull []))"

| "serialize_const ext (ConstantArray t ops) s =
     tagged ''Array'' (serialize_const_pack_array ext ops s)"
| "serialize_const ext (ConstantStruct t ops) s =
     tagged ''Struct'' (serialize_const_pack_struct ext ops s)"
| "serialize_const ext (ConstantVector t ops) s =
     tagged ''Vector'' (serialize_const_pack_vector ext ops s)"
| "serialize_const ext (OtherConstantAggregate t ops) s =
     (s, Inl (LogFatal ''unknown constant aggregate: {0}''
                [ArgConstant (OtherConstantAggregate t ops)]))"

| "serialize_const ext (GlobalVariable t name init) s =
     tagged ''Variable'' (serialize_const_ref_global_variable name s)"
| "serialize_const ext (Function t name body) s =
     tagged ''Function'' (serialize_const_ref_function name s)"
| "serialize_const ext (GlobalAlias t name aliasee) s =
     tagged ''Alias'' (serialize_const_ref_global_alias name s)"
| "serialize_const ext (GlobalIFunc t name resolver) s =
     tagged ''Interface'' (serialize_const_ref_interface name s)"
| "serialize_const ext (OtherGlobalValue t name) s =
     (s, Inl (LogFatal ''unknown constant reference to global value: {0}''
                [ArgConstant (OtherGlobalValue t name)]))"

| "serialize_const ext (ConstantExpr t opc ops) s =
     tagged ''Expr'' (serialize_const_expr ext t opc ops s)"

| "serialize_const ext (OtherConstant t) s =
     (s, Inl (LogFatal ''unknown constant: {0}'' [ArgConstant (OtherConstant t)]))"

| "data_sequence_loop ext [] elements s = (s, Inr elements)"
| "data_sequence_loop ext (c # cs) elements s =
     (case serialize_constant ext c s of
        (s1, Inl e) \<Rightarrow> (s1, Inl e)
      | (s1, Inr j) \<Rightarrow> data_sequence_loop ext cs (elements @ [JObject j]) s1)"
| "serialize_const_data_sequence ext elems s =
     (case data_sequence_loop ext elems [] s of
        (s1, Inl e) \<Rightarrow> (s1, Inl e)
      | (s1, Inr elements) \<Rightarrow> (s1, Inr (AList.update ''elements'' (JArray elements) [])))"

| "pack_aggregate_loop ext [] elements s = (s, Inr elements)"
| "pack_aggregate_loop ext (c # cs) elements s =
     (case serialize_constant ext c s of
        (s1, Inl e) \<Rightarrow> (s1, Inl e)
      | (s1, Inr j) \<Rightarrow> pack_aggregate_loop ext cs (elements @ [JObject j]) s1)"
| "serialize_const_pack_aggregate ext ops s =
     (case pack_aggregate_loop ext ops [] s of
        (s1, Inl e) \<Rightarrow> (s1, Inl e)
      | (s1, Inr elements) \<Rightarrow> (s1, Inr (AList.update ''elements'' (JArray elements) [])))"

| "serialize_const_data_array ext elems s = serialize_const_data_sequence ext elems s"
| "serialize_const_data_vector ext elems s = serialize_const_data_sequence ext elems s"
| "serialize_const_pack_array ext ops s = serialize_const_pack_aggregate ext ops s"
| "serialize_const_pack_struct ext ops s = serialize_const_pack_aggregate ext ops s"
| "serialize_const_pack_vector ext ops s = serialize_const_pack_aggregate ext ops s"
  by pat_completeness auto

termination
  by size_change

section \<open>What a serialization leaves unchanged\<close>





section \<open>Sample inputs\<close>

text \<open>
  A module \<open>m\<close> with one function \<open>main\<close> of one block and one instruction, before
  \<^verbatim>\<open>prepare_for_serialization\<close>; collaborators with the default width limit 64, whose
  instruction encoder needs no label; collaborators whose instruction encoder starts
  by looking up the label of an instruction; and the cast of the 64-bit integer
  constant 42 to a pointer (\<^verbatim>\<open>inttoptr\<close>, which the library does not fold), as a constant
  expression.
\<close>

definition session0 :: session where
  "session0 = \<lparr>LOG = [],
     function_store = [\<lparr>fn_name = ''main'', fn_type = FunctionTy (IntegerTy 32) [] False,
                         fn_linkage = ExternalLinkage, fn_blocks = [0]\<rparr>],
     block_store = [\<lparr>bb_name = ''entry'', bb_parent = Some 0, bb_insts = [0]\<rparr>],
     inst_store = [\<lparr>inst_shape = \<lparr>inst_opcode = Unreachable, inst_type = VoidTy,
                                     inst_operands = []\<rparr>, inst_parent = Some 0\<rparr>],
     the_module = \<lparr>mod_name = ''m'', FunctionList = [0]\<rparr>,
     dummy_block = None, dummy_function = None, dummy_instruction = None\<rparr>"

definition type_name :: "ty \<Rightarrow> json" where
  "type_name t = (case t of IntegerTy w \<Rightarrow> JString ''int'' | PointerTy \<Rightarrow> JString ''ptr''
                  | _ \<Rightarrow> JString ''other'')"

definition ext0 :: externals where
  "ext0 = \<lparr>OPT_MAX_BITS_FOR_INT = 64, serialize_type = type_name,
     serialize_inst = (\<lambda>ctxt i. Inr [(''operands'', JUInt (of_nat (length (inst_operands i))))]),
     toString = (\<lambda>f. ''0.0'')\<rparr>"

definition ext1 :: externals where
  "ext1 = ext0\<lparr>serialize_inst := (\<lambda>ctxt i.
       case get_instruction ctxt 0 of
         Inl e \<Rightarrow> Inl e
       | Inr l \<Rightarrow> Inr [(''index'', JUInt (of_nat l))])\<rparr>"

definition cast42 :: Constant where
  "cast42 = ConstantExpr PointerTy IntToPtr [ConstantInt (IntegerTy 64) (APInt 64 42)]"

section \<open>Labels of the function serialization context\<close>

lemma map_of_labelled_None:
  "map_of m k = None \<Longrightarrow> k \<notin> set ks \<Longrightarrow> map_of (labelled m ks) k = None"
  by (auto simp: labelled_def map_of_eq_None_iff dest: set_zip_leftD)

lemma labelled_Nil: "labelled m [] = m" by (simp add: labelled_def)

lemma labelled_Cons: "labelled m (k # ks) = labelled (m @ [(k, length m)]) ks"
  by (simp add: labelled_def upt_rec)

lemma emplace_absent: "map_of m k = None \<Longrightarrow> emplace m k v = (m @ [(k, v)], True)"
  by (simp add: emplace_def)

lemma emplace_present: "map_of m k = Some l \<Longrightarrow> emplace m k v = (m, False)"
  by (simp add: emplace_def)

lemma set_blocks_of: "set (blocks_of rs) = {b. RegBlock b \<in> set rs}"
  by (induction rs rule: blocks_of.induct) auto

lemma set_instructions_of: "set (instructions_of rs) = {i. RegInstruction i \<in> set rs}"
  by (induction rs rule: instructions_of.induct) auto

lemma set_arguments_of: "set (arguments_of rs) = {a. RegArgument a \<in> set rs}"
  by (induction rs rule: arguments_of.induct) auto

lemma add_block_absent:
  "map_of (block_labels c) b = None \<Longrightarrow>
   add_block c b = Inr (c\<lparr>block_labels := block_labels c @ [(b, length (block_labels c))]\<rparr>)"
  by (simp add: add_block_def emplace_absent)

lemma add_instruction_absent:
  "map_of (inst_labels c) i = None \<Longrightarrow>
   add_instruction c i = Inr (c\<lparr>inst_labels := inst_labels c @ [(i, length (inst_labels c))]\<rparr>)"
  by (simp add: add_instruction_def emplace_absent)

lemma add_argument_absent:
  "map_of (arg_labels c) a = None \<Longrightarrow>
   add_argument c a = Inr (c\<lparr>arg_labels := arg_labels c @ [(a, length (arg_labels c))]\<rparr>)"
  by (simp add: add_argument_def emplace_absent)

lemma register_all_labelled:
  "distinct rs \<Longrightarrow>
   \<forall>b \<in> set (blocks_of rs). map_of (block_labels c) b = None \<Longrightarrow>
   \<forall>i \<in> set (instructions_of rs). map_of (inst_labels c) i = None \<Longrightarrow>
   \<forall>a \<in> set (arguments_of rs). map_of (arg_labels c) a = None \<Longrightarrow>
   register_all c rs = Inr \<lparr>block_labels = labelled (block_labels c) (blocks_of rs),
       inst_labels = labelled (inst_labels c) (instructions_of rs),
       arg_labels = labelled (arg_labels c) (arguments_of rs)\<rparr>"
proof (induction rs arbitrary: c)
  case Nil
  then show ?case by (simp add: labelled_Nil)
next
  case (Cons r rs)
  show ?case
  proof (cases r)
    case (RegBlock b)
    have absent: "map_of (block_labels c) b = None"
      using Cons.prems(2) RegBlock by simp
    have rest: "b \<notin> set (blocks_of rs)"
      using Cons.prems(1) RegBlock by (simp add: set_blocks_of)
    let ?c = "c\<lparr>block_labels := block_labels c @ [(b, length (block_labels c))]\<rparr>"
    have "register_all ?c rs = Inr \<lparr>block_labels = labelled (block_labels ?c) (blocks_of rs),
       inst_labels = labelled (inst_labels ?c) (instructions_of rs),
       arg_labels = labelled (arg_labels ?c) (arguments_of rs)\<rparr>"
      using Cons.prems rest RegBlock by (intro Cons.IH) auto
    then show ?thesis
      using RegBlock absent by (simp add: add_block_absent labelled_Cons)
  next
    case (RegInstruction i)
    have absent: "map_of (inst_labels c) i = None"
      using Cons.prems(3) RegInstruction by simp
    have rest: "i \<notin> set (instructions_of rs)"
      using Cons.prems(1) RegInstruction by (simp add: set_instructions_of)
    let ?c = "c\<lparr>inst_labels := inst_labels c @ [(i, length (inst_labels c))]\<rparr>"
    have "register_all ?c rs = Inr \<lparr>block_labels = labelled (block_labels ?c) (blocks_of rs),
       inst_labels = labelled (inst_labels ?c) (instructions_of rs),
       arg_labels = labelled (arg_labels ?c) (arguments_of rs)\<rparr>"
      using Cons.prems rest RegInstruction by (intro Cons.IH) auto
    then show ?thesis
      using RegInstruction absent by (simp add: add_instruction_absent labelled_Cons)
  next
    case (RegArgument a)
    have absent: "map_of (arg_labels c) a = None"
      using Cons.prems(4) RegArgument by simp
    have rest: "a \<notin> set (arguments_of rs)"
      using Cons.prems(1) RegArgument by (simp add: set_arguments_of)
    let ?c = "c\<lparr>arg_labels := arg_labels c @ [(a, length (arg_labels c))]\<rparr>"
    have "register_all ?c rs = Inr \<lparr>block_labels = labelled (block_labels ?c) (blocks_of rs),
       inst_labels = labelled (inst_labels ?c) (instructions_of rs),
       arg_labels = labelled (arg_labels ?c) (arguments_of rs)\<rparr>"
      using Cons.prems rest RegArgument by (intro Cons.IH) auto
    then show ?thesis
      using RegArgument absent by (simp add: add_argument_absent labelled_Cons)
  qed
qed

lemma distinct_blocks_of: "distinct rs \<Longrightarrow> distinct (blocks_of rs)"
  by (induction rs rule: blocks_of.induct) (auto simp: set_blocks_of)

lemma distinct_instructions_of: "distinct rs \<Longrightarrow> distinct (instructions_of rs)"
  by (induction rs rule: instructions_of.induct) (auto simp: set_instructions_of)

lemma distinct_arguments_of: "distinct rs \<Longrightarrow> distinct (arguments_of rs)"
  by (induction rs rule: arguments_of.induct) (auto simp: set_arguments_of)

lemma at_labelled_fresh:
  "distinct ks \<Longrightarrow> i < length ks \<Longrightarrow> at (labelled [] ks) (ks ! i) = Inr i"
proof -
  assume d: "distinct ks" and i: "i < length ks"
  have "map_of (zip ks [0 ..< length ks]) (ks ! i) = Some ([0 ..< length ks] ! i)"
    using d i by (intro map_of_zip_nth) auto
  then show ?thesis using i by (simp add: at_def labelled_def)
qed

lemma at_labelled_unseen:
  "k \<notin> set ks \<Longrightarrow> at (labelled [] ks) k = Inl OutOfRange"
proof -
  assume "k \<notin> set ks"
  then have "map_of (labelled [] ks) k = None"
    by (intro map_of_labelled_None) auto
  then show ?thesis by (simp add: at_def)
qed

text \<open>
  Claim C6. Start from a fresh context and register any sequence of distinct blocks,
  instructions and arguments, interleaved in any way. Every registration succeeds;
  in each of the three tables the \<open>n\<close>-th identity registered there has the label \<open>n\<close>,
  counting from 0, which is what the matching \<^verbatim>\<open>get_*\<close> returns; and \<^verbatim>\<open>get_*\<close> of an
  identity never registered in that table ends the run with \<^verbatim>\<open>std::out_of_range\<close>.
\<close>

theorem labels_dense_in_first_add_order:
  assumes "distinct rs"
  shows "\<exists>c. register_all fresh_context rs = Inr c
    \<and> (\<forall>n < length (blocks_of rs). get_block c (blocks_of rs ! n) = Inr n)
    \<and> (\<forall>n < length (instructions_of rs). get_instruction c (instructions_of rs ! n) = Inr n)
    \<and> (\<forall>n < length (arguments_of rs). get_argument c (arguments_of rs ! n) = Inr n)
    \<and> (\<forall>b. b \<notin> set (blocks_of rs) \<longrightarrow> get_block c b = Inl OutOfRange)
    \<and> (\<forall>i. i \<notin> set (instructions_of rs) \<longrightarrow> get_instruction c i = Inl OutOfRange)
    \<and> (\<forall>a. a \<notin> set (arguments_of rs) \<longrightarrow> get_argument c a = Inl OutOfRange)"
proof -
  let ?c = "\<lparr>block_labels = labelled [] (blocks_of rs),
       inst_labels = labelled [] (instructions_of rs),
       arg_labels = labelled [] (arguments_of rs)\<rparr>"
  have run: "register_all fresh_context rs = Inr ?c"
    using register_all_labelled [OF assms, of fresh_context] by (simp add: fresh_context_def)
  have "\<forall>n < length (blocks_of rs). get_block ?c (blocks_of rs ! n) = Inr n"
    using distinct_blocks_of [OF assms] by (simp add: get_block_def at_labelled_fresh)
  moreover have "\<forall>n < length (instructions_of rs). get_instruction ?c (instructions_of rs ! n) = Inr n"
    using distinct_instructions_of [OF assms] by (simp add: get_instruction_def at_labelled_fresh)
  moreover have "\<forall>n < length (arguments_of rs). get_argument ?c (arguments_of rs ! n) = Inr n"
    using distinct_arguments_of [OF assms] by (simp add: get_argument_def at_labelled_fresh)
  moreover have "\<forall>b. b \<notin> set (blocks_of rs) \<longrightarrow> get_block ?c b = Inl OutOfRange"
    by (simp add: get_block_def at_labelled_unseen)
  moreover have "\<forall>i. i \<notin> set (instructions_of rs) \<longrightarrow> get_instruction ?c i = Inl OutOfRange"
    by (simp add: get_instruction_def at_labelled_unseen)
  moreover have "\<forall>a. a \<notin> set (arguments_of rs) \<longrightarrow> get_argument ?c a = Inl OutOfRange"
    by (simp add: get_argument_def at_labelled_unseen)
  ultimately show ?thesis using run by blast
qed

theorem labels_dense_in_first_add_order_witness:
  "distinct [RegBlock 10, RegInstruction 10, RegBlock 20, RegArgument 7, RegBlock 30]
   \<and> (\<exists>c. register_all fresh_context
          [RegBlock 10, RegInstruction 10, RegBlock 20, RegArgument 7, RegBlock 30] = Inr c
      \<and> get_block c 10 = Inr 0 \<and> get_block c 20 = Inr 1 \<and> get_block c 30 = Inr 2
      \<and> get_instruction c 10 = Inr 0 \<and> get_argument c 7 = Inr 0
      \<and> get_block c 7 = Inl OutOfRange \<and> get_instruction c 20 = Inl OutOfRange
      \<and> get_argument c 10 = Inl OutOfRange)"
proof -
  let ?rs = "[RegBlock 10, RegInstruction 10, RegBlock 20, RegArgument 7, RegBlock 30]"
  have d: "distinct ?rs" by simp
  obtain c where run: "register_all fresh_context ?rs = Inr c"
    and blk: "\<forall>n < length (blocks_of ?rs). get_block c (blocks_of ?rs ! n) = Inr n"
    and ins: "\<forall>n < length (instructions_of ?rs). get_instruction c (instructions_of ?rs ! n) = Inr n"
    and arg: "\<forall>n < length (arguments_of ?rs). get_argument c (arguments_of ?rs ! n) = Inr n"
    and noblk: "\<forall>b. b \<notin> set (blocks_of ?rs) \<longrightarrow> get_block c b = Inl OutOfRange"
    and noins: "\<forall>i. i \<notin> set (instructions_of ?rs) \<longrightarrow> get_instruction c i = Inl OutOfRange"
    and noarg: "\<forall>a. a \<notin> set (arguments_of ?rs) \<longrightarrow> get_argument c a = Inl OutOfRange"
    using labels_dense_in_first_add_order [OF d] by blast
  have "get_block c 10 = Inr 0" using blk [rule_format, of 0] by simp
  moreover have "get_block c 20 = Inr 1" using blk [rule_format, of 1] by simp
  moreover have "get_block c 30 = Inr 2" using blk [rule_format, of 2] by simp
  moreover have "get_instruction c 10 = Inr 0" using ins [rule_format, of 0] by simp
  moreover have "get_argument c 7 = Inr 0" using arg [rule_format, of 0] by simp
  moreover have "get_block c 7 = Inl OutOfRange" using noblk [rule_format, of 7] by simp
  moreover have "get_instruction c 20 = Inl OutOfRange" using noins [rule_format, of 20] by simp
  moreover have "get_argument c 10 = Inl OutOfRange" using noarg [rule_format, of 10] by simp
  ultimately show ?thesis using d run by blast
qed

text \<open>
  Claim C7. When an identity already has a label in a table, the matching \<^verbatim>\<open>add_*\<close>
  ends the run on its assertion; the \<^verbatim>\<open>emplace\<close> before the assertion has inserted
  nothing and returns the table as it was, so the identity keeps the label it had.
\<close>

theorem second_add_fails_and_keeps_label:
  "(map_of (block_labels c) k = Some l \<longrightarrow>
      add_block c k = Inl AssertionFailure
      \<and> emplace (block_labels c) k (length (block_labels c)) = (block_labels c, False)
      \<and> get_block c k = Inr l)
   \<and> (map_of (inst_labels c) k = Some l \<longrightarrow>
      add_instruction c k = Inl AssertionFailure
      \<and> emplace (inst_labels c) k (length (inst_labels c)) = (inst_labels c, False)
      \<and> get_instruction c k = Inr l)
   \<and> (map_of (arg_labels c) k = Some l \<longrightarrow>
      add_argument c k = Inl AssertionFailure
      \<and> emplace (arg_labels c) k (length (arg_labels c)) = (arg_labels c, False)
      \<and> get_argument c k = Inr l)"
  by (simp add: add_block_def add_instruction_def add_argument_def emplace_present
      get_block_def get_instruction_def get_argument_def at_def)

theorem second_add_fails_and_keeps_label_witness:
  "map_of (block_labels \<lparr>block_labels = [(10, 0)], inst_labels = [(11, 0)], arg_labels = [(12, 0)]\<rparr>) 10 = Some 0
   \<and> add_block \<lparr>block_labels = [(10, 0)], inst_labels = [(11, 0)], arg_labels = [(12, 0)]\<rparr> 10
       = Inl AssertionFailure
   \<and> map_of (inst_labels \<lparr>block_labels = [(10, 0)], inst_labels = [(11, 0)], arg_labels = [(12, 0)]\<rparr>) 11 = Some 0
   \<and> add_instruction \<lparr>block_labels = [(10, 0)], inst_labels = [(11, 0)], arg_labels = [(12, 0)]\<rparr> 11
       = Inl AssertionFailure
   \<and> map_of (arg_labels \<lparr>block_labels = [(10, 0)], inst_labels = [(11, 0)], arg_labels = [(12, 0)]\<rparr>) 12 = Some 0
   \<and> add_argument \<lparr>block_labels = [(10, 0)], inst_labels = [(11, 0)], arg_labels = [(12, 0)]\<rparr> 12
       = Inl AssertionFailure"
  using second_add_fails_and_keeps_label
    [of "\<lparr>block_labels = [(10, 0)], inst_labels = [(11, 0)], arg_labels = [(12, 0)]\<rparr>" 10 0]
    second_add_fails_and_keeps_label
    [of "\<lparr>block_labels = [(10, 0)], inst_labels = [(11, 0)], arg_labels = [(12, 0)]\<rparr>" 11 0]
    second_add_fails_and_keeps_label
    [of "\<lparr>block_labels = [(10, 0)], inst_labels = [(11, 0)], arg_labels = [(12, 0)]\<rparr>" 12 0]
  by simp

section \<open>Results and final sessions of the serializer\<close>

text \<open>
  The equations of \<^verbatim>\<open>serialize_constant\<close> and of the two functions around the loops are
  used through the lemmas below, which give the result and the final session apart.
\<close>

declare serialize_constant.simps [simp del]
  serialize_const_data_sequence.simps [simp del]
  serialize_const_pack_aggregate.simps [simp del]

lemma snd_tagged:
  "snd (tagged tag r) = (case snd r of Inl e \<Rightarrow> Inl e | Inr p \<Rightarrow> Inr [(tag, JObject p)])"
  by (cases r; cases "snd r") auto

lemma fst_tagged: "fst (tagged tag r) = fst r"
  by (cases r; cases "snd r") auto

lemma snd_serialize_constant:
  "snd (serialize_constant ext c s) =
     (case snd (serialize_const ext c s) of
        Inl e \<Rightarrow> Inl e
      | Inr r \<Rightarrow> Inr [(''ty'', serialize_type ext (getType c)), (''repr'', JObject r)])"
  by (cases "serialize_const ext c s"; cases "snd (serialize_const ext c s)")
    (auto simp: serialize_constant.simps)

lemma fst_serialize_constant: "fst (serialize_constant ext c s) = fst (serialize_const ext c s)"
  by (cases "serialize_const ext c s"; cases "snd (serialize_const ext c s)")
    (auto simp: serialize_constant.simps)

lemma getAsInstruction_fst: "fst (getAsInstruction t opc ops p s) = length (inst_store s)"
  by (simp add: getAsInstruction_def Let_def split: option.splits prod.splits)

lemma getAsInstruction_inst_store:
  "inst_store (snd (getAsInstruction t opc ops p s)) =
     inst_store s @ [\<lparr>inst_shape = \<lparr>inst_opcode = opc, inst_type = t,
                                     inst_operands = map OpConstant ops\<rparr>,
                      inst_parent = map_option snd (insertion_point p s)\<rparr>]"
  by (simp add: getAsInstruction_def Let_def split: option.splits prod.splits)

lemma snd_serialize_const_expr:
  "snd (serialize_const_expr ext t opc ops s) =
     (case serialize_inst ext fresh_context
             \<lparr>inst_opcode = opc, inst_type = t, inst_operands = map OpConstant ops\<rparr> of
        Inl e \<Rightarrow> Inl e
      | Inr i \<Rightarrow> Inr [(''inst'', JObject i)])"
proof -
  obtain inst s1 where g: "getAsInstruction t opc ops (dummy_instruction s) s = (inst, s1)"
    by (cases "getAsInstruction t opc ops (dummy_instruction s) s")
  have "inst = length (inst_store s)"
    using getAsInstruction_fst [of t opc ops "dummy_instruction s" s] g by simp
  moreover have "inst_store s1 = inst_store s @ [\<lparr>inst_shape = \<lparr>inst_opcode = opc, inst_type = t,
                                     inst_operands = map OpConstant ops\<rparr>,
                      inst_parent = map_option snd (insertion_point (dummy_instruction s) s)\<rparr>]"
    using getAsInstruction_inst_store [of t opc ops "dummy_instruction s" s] g by simp
  ultimately have "inst_shape (inst_store s1 ! inst)
      = \<lparr>inst_opcode = opc, inst_type = t, inst_operands = map OpConstant ops\<rparr>"
    by simp
  then show ?thesis
    using g by (simp add: serialize_const_expr_def split: sum.splits)
qed

lemma fst_serialize_const_expr:
  "fst (serialize_const_expr ext t opc ops s)
     = snd (getAsInstruction t opc ops (dummy_instruction s) s)"
  by (simp add: serialize_const_expr_def split: sum.splits prod.splits)

lemma snd_serialize_const_data_sequence:
  "snd (serialize_const_data_sequence ext cs s) =
     (case snd (data_sequence_loop ext cs [] s) of
        Inl e \<Rightarrow> Inl e
      | Inr elements \<Rightarrow> Inr [(''elements'', JArray elements)])"
  by (cases "data_sequence_loop ext cs [] s"; cases "snd (data_sequence_loop ext cs [] s)")
    (auto simp: serialize_const_data_sequence.simps)

lemma snd_serialize_const_pack_aggregate:
  "snd (serialize_const_pack_aggregate ext cs s) =
     (case snd (pack_aggregate_loop ext cs [] s) of
        Inl e \<Rightarrow> Inl e
      | Inr elements \<Rightarrow> Inr [(''elements'', JArray elements)])"
  by (cases "pack_aggregate_loop ext cs [] s"; cases "snd (pack_aggregate_loop ext cs [] s)")
    (auto simp: serialize_const_pack_aggregate.simps)



lemma snd_serialize_const_ref_global:
  "snd (serialize_const_ref_global name s) =
     (case name of
        None \<Rightarrow> Inr []
      | Some n \<Rightarrow> (case json_Value n of Inl e \<Rightarrow> Inl e | Inr v \<Rightarrow> Inr [(''name'', v)]))"
  by (simp add: serialize_const_ref_global_def split: option.splits sum.splits)


lemma snd_serialize_const_data_float:
  "snd (serialize_const_data_float ext val s) =
     (case json_Value (toString ext val) of Inl e \<Rightarrow> Inl e | Inr v \<Rightarrow> Inr [(''value'', v)])"
  by (simp add: serialize_const_data_float_def split: sum.splits)


subsection \<open>The result does not depend on the session\<close>

lemma snd_serialize_const_data_int:
  "snd (serialize_const_data_int ext v s) = snd (serialize_const_data_int ext v s')"
  by (simp add: serialize_const_data_int_def Let_def)

lemma data_sequence_loop_indep:
  assumes "\<And>c s s'. c \<in> set cs \<Longrightarrow>
             snd (serialize_constant ext c s) = snd (serialize_constant ext c s')"
  shows "snd (data_sequence_loop ext cs acc s) = snd (data_sequence_loop ext cs acc s')"
  using assms
proof (induction cs arbitrary: acc s s')
  case Nil
  show ?case by simp
next
  case (Cons c cs)
  obtain s1 r where a: "serialize_constant ext c s = (s1, r)"
    by (cases "serialize_constant ext c s")
  obtain s1' r' where b: "serialize_constant ext c s' = (s1', r')"
    by (cases "serialize_constant ext c s'")
  have "r = r'" using Cons.prems [of c s s'] a b by simp
  moreover have "snd (data_sequence_loop ext cs acc' s1) = snd (data_sequence_loop ext cs acc' s1')"
    for acc'
    using Cons.prems by (intro Cons.IH) simp
  ultimately show ?case using a b by (simp split: sum.splits)
qed

lemma pack_aggregate_loop_indep:
  assumes "\<And>c s s'. c \<in> set cs \<Longrightarrow>
             snd (serialize_constant ext c s) = snd (serialize_constant ext c s')"
  shows "snd (pack_aggregate_loop ext cs acc s) = snd (pack_aggregate_loop ext cs acc s')"
  using assms
proof (induction cs arbitrary: acc s s')
  case Nil
  show ?case by simp
next
  case (Cons c cs)
  obtain s1 r where a: "serialize_constant ext c s = (s1, r)"
    by (cases "serialize_constant ext c s")
  obtain s1' r' where b: "serialize_constant ext c s' = (s1', r')"
    by (cases "serialize_constant ext c s'")
  have "r = r'" using Cons.prems [of c s s'] a b by simp
  moreover have "snd (pack_aggregate_loop ext cs acc' s1) = snd (pack_aggregate_loop ext cs acc' s1')"
    for acc'
    using Cons.prems by (intro Cons.IH) simp
  ultimately show ?case using a b by (simp split: sum.splits)
qed

lemma serialize_const_indep:
  "snd (serialize_const ext c s) = snd (serialize_const ext c s')"
proof (induction c arbitrary: s s')
  case (ConstantInt t v)
  show ?case
    using snd_serialize_const_data_int [of ext v s s'] by (simp add: snd_tagged)
next
  case (ConstantDataArray t cs)
  have "snd (serialize_constant ext c u) = snd (serialize_constant ext c u')"
    if "c \<in> set cs" for c u u'
    using ConstantDataArray [OF that, of u u'] by (simp add: snd_serialize_constant)
  then have "snd (data_sequence_loop ext cs [] s) = snd (data_sequence_loop ext cs [] s')"
    by (rule data_sequence_loop_indep)
  then show ?case
    by (simp add: snd_tagged snd_serialize_const_data_sequence)
next
  case (ConstantDataVector t cs)
  have "snd (serialize_constant ext c u) = snd (serialize_constant ext c u')"
    if "c \<in> set cs" for c u u'
    using ConstantDataVector [OF that, of u u'] by (simp add: snd_serialize_constant)
  then have "snd (data_sequence_loop ext cs [] s) = snd (data_sequence_loop ext cs [] s')"
    by (rule data_sequence_loop_indep)
  then show ?case
    by (simp add: snd_tagged snd_serialize_const_data_sequence)
next
  case (ConstantArray t cs)
  have "snd (serialize_constant ext c u) = snd (serialize_constant ext c u')"
    if "c \<in> set cs" for c u u'
    using ConstantArray [OF that, of u u'] by (simp add: snd_serialize_constant)
  then have "snd (pack_aggregate_loop ext cs [] s) = snd (pack_aggregate_loop ext cs [] s')"
    by (rule pack_aggregate_loop_indep)
  then show ?case
    by (simp add: snd_tagged snd_serialize_const_pack_aggregate)
next
  case (ConstantStruct t cs)
  have "snd (serialize_constant ext c u) = snd (serialize_constant ext c u')"
    if "c \<in> set cs" for c u u'
    using ConstantStruct [OF that, of u u'] by (simp add: snd_serialize_constant)
  then have "snd (pack_aggregate_loop ext cs [] s) = snd (pack_aggregate_loop ext cs [] s')"
    by (rule pack_aggregate_loop_indep)
  then show ?case
    by (simp add: snd_tagged snd_serialize_const_pack_aggregate)
next
  case (ConstantVector t cs)
  have "snd (serialize_constant ext c u) = snd (serialize_constant ext c u')"
    if "c \<in> set cs" for c u u'
    using ConstantVector [OF that, of u u'] by (simp add: snd_serialize_constant)
  then have "snd (pack_aggregate_loop ext cs [] s) = snd (pack_aggregate_loop ext cs [] s')"
    by (rule pack_aggregate_loop_indep)
  then show ?case
    by (simp add: snd_tagged snd_serialize_const_pack_aggregate)
next
  case (ConstantExpr t opc ops)
  show ?case by (simp add: snd_tagged snd_serialize_const_expr)
qed (simp_all add: snd_tagged snd_serialize_const_data_float
      serialize_const_ref_global_variable_def serialize_const_ref_function_def
      serialize_const_ref_global_alias_def serialize_const_ref_interface_def
      snd_serialize_const_ref_global)

lemma serialize_constant_indep:
  "snd (serialize_constant ext c s) = snd (serialize_constant ext c s')"
  using serialize_const_indep [of ext c s s'] by (simp add: snd_serialize_constant)

lemma data_sequence_loop_result:
  "list_all2 (\<lambda>c j. snd (serialize_constant ext c s0) = Inr j) cs js \<Longrightarrow>
   snd (data_sequence_loop ext cs acc s) = Inr (acc @ map JObject js)"
proof (induction cs js arbitrary: acc s rule: list_all2_induct)
  case Nil
  show ?case by simp
next
  case (Cons c cs j js)
  obtain s1 r where a: "serialize_constant ext c s = (s1, r)"
    by (cases "serialize_constant ext c s")
  have "r = Inr j"
    using Cons.hyps(1) serialize_constant_indep [of ext c s s0] a by simp
  then show ?case using a Cons.IH [of "acc @ [JObject j]" s1] by simp
qed

lemma pack_aggregate_loop_result:
  "list_all2 (\<lambda>c j. snd (serialize_constant ext c s0) = Inr j) cs js \<Longrightarrow>
   snd (pack_aggregate_loop ext cs acc s) = Inr (acc @ map JObject js)"
proof (induction cs js arbitrary: acc s rule: list_all2_induct)
  case Nil
  show ?case by simp
next
  case (Cons c cs j js)
  obtain s1 r where a: "serialize_constant ext c s = (s1, r)"
    by (cases "serialize_constant ext c s")
  have "r = Inr j"
    using Cons.hyps(1) serialize_constant_indep [of ext c s s0] a by simp
  then show ?case using a Cons.IH [of "acc @ [JObject j]" s1] by simp
qed

section \<open>Integer constants\<close>

lemma unat_UINT64_MAX: "unat UINT64_MAX = 18446744073709551615"
  by (simp add: UINT64_MAX_def)

lemma getLimitedValue_exact:
  "getZExtValue v \<le> 18446744073709551615 \<Longrightarrow>
   \<not> ugt v UINT64_MAX \<and> unat (getLimitedValue v UINT64_MAX) = getZExtValue v"
  by (simp add: ugt_def getLimitedValue_def unat_UINT64_MAX unat_of_nat)

text \<open>
  Claim C1. An integer constant whose unsigned value is at most \<open>2 ^ 64 - 1\<close> is
  encoded as \<open>{"Int": {"value": v}}\<close>, where the 64-bit number \<open>v\<close> is the constant's
  unsigned value exactly, whatever the bit width. The session is left as it was when
  the width is within \<^verbatim>\<open>OPT_MAX_BITS_FOR_INT\<close>; otherwise the one change is that the logger
  has recorded the error about the width.
\<close>

theorem int_within_uint64_encodes_exact_value:
  assumes "getZExtValue v \<le> 18446744073709551615"
  shows "snd (serialize_const ext (ConstantInt t v) s)
           = Inr [(''Int'', JObject [(''value'', JUInt (getLimitedValue v UINT64_MAX))])]
    \<and> unat (getLimitedValue v UINT64_MAX) = getZExtValue v
    \<and> fst (serialize_const ext (ConstantInt t v) s)
        = (if OPT_MAX_BITS_FOR_INT ext < getBitWidth v
           then s\<lparr>LOG := LOG s @ [(Error, ''constant integer width exceeds limit: {0}'',
                                     [ArgUnsigned (getBitWidth v)])]\<rparr>
           else s)
    \<and> snd (serialize_constant ext (ConstantInt t v) s)
        = Inr [(''ty'', serialize_type ext t),
               (''repr'', JObject [(''Int'',
                  JObject [(''value'', JUInt (getLimitedValue v UINT64_MAX))])])]"
  using getLimitedValue_exact [OF assms]
  by (simp add: serialize_constant.simps serialize_const_data_int_def error_def Let_def)

theorem int_within_uint64_encodes_exact_value_witness:
  "getZExtValue (APInt 128 42) \<le> 18446744073709551615
   \<and> snd (serialize_const ext0 (ConstantInt (IntegerTy 128) (APInt 128 42)) session0)
       = Inr [(''Int'', JObject [(''value'', JUInt 42)])]
   \<and> LOG (fst (serialize_const ext0 (ConstantInt (IntegerTy 128) (APInt 128 42)) session0))
       = [(Error, ''constant integer width exceeds limit: {0}'', [ArgUnsigned 128])]
   \<and> snd (serialize_const ext0 (ConstantInt (IntegerTy 32) (APInt 32 7)) session0)
       = Inr [(''Int'', JObject [(''value'', JUInt 7)])]
   \<and> LOG (fst (serialize_const ext0 (ConstantInt (IntegerTy 32) (APInt 32 7)) session0)) = []"
  using int_within_uint64_encodes_exact_value [of "APInt 128 42" ext0 "IntegerTy 128" session0]
    int_within_uint64_encodes_exact_value [of "APInt 32 7" ext0 "IntegerTy 32" session0]
  by (simp add: ext0_def session0_def getLimitedValue_def ugt_def UINT64_MAX_def)

text \<open>
  Claim C2. An integer constant whose unsigned value exceeds \<open>2 ^ 64 - 1\<close> ends the
  run with the fatal message about the value, whatever its bit width: neither
  \<^verbatim>\<open>serialize_const_data_int\<close> nor \<^verbatim>\<open>serialize_const\<close> nor \<^verbatim>\<open>serialize_constant\<close> returns an
  object for it.
\<close>

theorem int_beyond_uint64_is_fatal:
  assumes "18446744073709551615 < getZExtValue v"
  shows "snd (serialize_const_data_int ext v s)
           = Inl (LogFatal ''constant integer value exceeds limit: {0}''
                    [ArgUnsigned (getZExtValue v)])
    \<and> snd (serialize_const ext (ConstantInt t v) s)
           = Inl (LogFatal ''constant integer value exceeds limit: {0}''
                    [ArgUnsigned (getZExtValue v)])
    \<and> snd (serialize_constant ext (ConstantInt t v) s)
           = Inl (LogFatal ''constant integer value exceeds limit: {0}''
                    [ArgUnsigned (getZExtValue v)])"
  using assms
  by (simp add: serialize_constant.simps serialize_const_data_int_def ugt_def unat_UINT64_MAX Let_def)

theorem int_beyond_uint64_is_fatal_witness:
  "18446744073709551615 < getZExtValue (APInt 65 18446744073709551616)
   \<and> snd (serialize_constant ext0 (ConstantInt (IntegerTy 65) (APInt 65 18446744073709551616))
            session0)
       = Inl (LogFatal ''constant integer value exceeds limit: {0}''
                [ArgUnsigned 18446744073709551616])"
  using int_beyond_uint64_is_fatal
    [of "APInt 65 18446744073709551616" ext0 session0 "IntegerTy 65"]
  by simp

section \<open>References to global values\<close>

lemma json_Value_wellformed: "isUTF8 V \<Longrightarrow> json_Value V = Inr (JString V)"
  by (simp add: json_Value_def)

lemma json_Value_illformed: "\<not> isUTF8 V \<Longrightarrow> json_Value V = Inl AssertionFailure"
  by (simp add: json_Value_def)






section \<open>Aggregates and data sequences\<close>

text \<open>
  Claim C3. When the elements \<open>as\<close> of an aggregate or of a data sequence are encoded
  by \<^verbatim>\<open>serialize_constant\<close> as the objects \<open>js\<close>, element by element, the payload is
  \<open>{"elements": js}\<close> with the encodings in the order of the elements, under the tag
  \<open>Array\<close>, \<open>Struct\<close> or \<open>Vector\<close> of the constant.
\<close>

theorem elements_in_stored_order:
  assumes "list_all2 (\<lambda>a j. snd (serialize_constant ext a s) = Inr j) as js"
  shows "snd (serialize_const_pack_aggregate ext as s)
           = Inr [(''elements'', JArray (map JObject js))]
    \<and> snd (serialize_const_data_sequence ext as s)
           = Inr [(''elements'', JArray (map JObject js))]
    \<and> snd (serialize_const ext (ConstantArray t as) s)
           = Inr [(''Array'', JObject [(''elements'', JArray (map JObject js))])]
    \<and> snd (serialize_const ext (ConstantStruct t as) s)
           = Inr [(''Struct'', JObject [(''elements'', JArray (map JObject js))])]
    \<and> snd (serialize_const ext (ConstantVector t as) s)
           = Inr [(''Vector'', JObject [(''elements'', JArray (map JObject js))])]
    \<and> snd (serialize_const ext (ConstantDataArray t as) s)
           = Inr [(''Array'', JObject [(''elements'', JArray (map JObject js))])]
    \<and> snd (serialize_const ext (ConstantDataVector t as) s)
           = Inr [(''Vector'', JObject [(''elements'', JArray (map JObject js))])]"
proof -
  have p: "snd (serialize_const_pack_aggregate ext as s)
      = Inr [(''elements'', JArray (map JObject js))]"
    using pack_aggregate_loop_result [OF assms, of "[]" s]
    by (simp add: snd_serialize_const_pack_aggregate)
  have d: "snd (serialize_const_data_sequence ext as s)
      = Inr [(''elements'', JArray (map JObject js))]"
    using data_sequence_loop_result [OF assms, of "[]" s]
    by (simp add: snd_serialize_const_data_sequence)
  show ?thesis using p d by (simp add: snd_tagged)
qed

theorem elements_in_stored_order_witness:
  "snd (serialize_const ext0
          (ConstantStruct (StructTy [IntegerTy 32, PointerTy, IntegerTy 32])
             [ConstantInt (IntegerTy 32) (APInt 32 1), ConstantPointerNull PointerTy,
              ConstantInt (IntegerTy 32) (APInt 32 2)]) session0)
     = Inr [(''Struct'', JObject [(''elements'', JArray
         [JObject [(''ty'', JString ''int''),
                   (''repr'', JObject [(''Int'', JObject [(''value'', JUInt 1)])])],
          JObject [(''ty'', JString ''ptr''), (''repr'', JObject [(''Null'', JNull)])],
          JObject [(''ty'', JString ''int''),
                   (''repr'', JObject [(''Int'', JObject [(''value'', JUInt 2)])])]])])]"
proof -
  let ?as = "[ConstantInt (IntegerTy 32) (APInt 32 1), ConstantPointerNull PointerTy,
              ConstantInt (IntegerTy 32) (APInt 32 2)]"
  let ?js = "[[(''ty'', JString ''int''),
                   (''repr'', JObject [(''Int'', JObject [(''value'', JUInt 1)])])],
          [(''ty'', JString ''ptr''), (''repr'', JObject [(''Null'', JNull)])],
          [(''ty'', JString ''int''),
                   (''repr'', JObject [(''Int'', JObject [(''value'', JUInt 2)])])]]"
  have h: "list_all2 (\<lambda>a j. snd (serialize_constant ext0 a session0) = Inr j) ?as ?js"
    by (simp add: serialize_constant.simps serialize_const_data_int_def ext0_def type_name_def
        getLimitedValue_def ugt_def UINT64_MAX_def)
  show ?thesis
    using elements_in_stored_order
      [OF h, of "StructTy [IntegerTy 32, PointerTy, IntegerTy 32]"]
    by simp
qed

section \<open>Encoding the same constant again\<close>

text \<open>
  Claim C9. Encoding a constant a second time, in the session the first encoding
  left, ends as the first encoding did, with the same object or the same abort; and so
  does encoding it in any other session: the outcome is a function of the constant
  (and of the collaborators).
\<close>

theorem encoding_is_a_function_of_the_value:
  "snd (serialize_constant ext c (fst (serialize_constant ext c s)))
     = snd (serialize_constant ext c s)
   \<and> snd (serialize_constant ext c s') = snd (serialize_constant ext c s)"
  using serialize_constant_indep [of ext c "fst (serialize_constant ext c s)" s]
    serialize_constant_indep [of ext c s' s]
  by simp

theorem encoding_is_a_function_of_the_value_witness:
  "snd (serialize_constant ext0 cast42 (fst (serialize_constant ext0 cast42 session0)))
     = Inr [(''ty'', JString ''ptr''),
            (''repr'', JObject [(''Expr'', JObject [(''inst'',
               JObject [(''operands'', JUInt 1)])])])]
   \<and> fst (serialize_constant ext0 cast42 session0) \<noteq> session0"
proof -
  have "snd (serialize_constant ext0 cast42 session0)
     = Inr [(''ty'', JString ''ptr''),
            (''repr'', JObject [(''Expr'', JObject [(''inst'',
               JObject [(''operands'', JUInt 1)])])])]"
    by (simp add: snd_serialize_constant snd_tagged snd_serialize_const_expr cast42_def
        ext0_def type_name_def)
  moreover have "inst_store (fst (serialize_constant ext0 cast42 session0)) \<noteq> inst_store session0"
    by (simp add: fst_serialize_constant fst_tagged fst_serialize_const_expr cast42_def
        getAsInstruction_inst_store)
  ultimately show ?thesis
    using encoding_is_a_function_of_the_value [of ext0 cast42 session0 session0]
    by auto
qed

section \<open>Constant expressions\<close>

text \<open>
  Claim C5. Take a constant expression and any instruction \<open>r\<close> with the opcode, the
  type and the operands of the expression, in whatever block. When the instruction
  encoder, given a fresh context (three empty tables), encodes \<open>r\<close> as \<open>i\<close>, the
  expression is encoded as \<open>{"Expr": {"inst": i}}\<close>; and the instruction that the
  serializer made from the expression, the newest of the store, computes what \<open>r\<close>
  computes.
\<close>

theorem expression_wraps_instruction_encoding:
  assumes "inst_shape r
             = \<lparr>inst_opcode = opc, inst_type = t, inst_operands = map OpConstant ops\<rparr>"
    and "serialize_inst ext fresh_context (inst_shape r) = Inr i"
  shows "snd (serialize_const ext (ConstantExpr t opc ops) s)
           = Inr [(''Expr'', JObject [(''inst'', JObject i)])]
    \<and> fresh_context = \<lparr>block_labels = [], inst_labels = [], arg_labels = []\<rparr>
    \<and> inst_shape (inst_store (fst (serialize_const ext (ConstantExpr t opc ops) s))
                    ! length (inst_store s)) = inst_shape r"
  using assms
  by (simp add: snd_tagged fst_tagged snd_serialize_const_expr fst_serialize_const_expr
      getAsInstruction_inst_store fresh_context_def)

theorem expression_wraps_instruction_encoding_witness:
  "snd (serialize_const ext0 cast42 session0)
     = Inr [(''Expr'', JObject [(''inst'', JObject [(''operands'', JUInt 1)])])]"
proof -
  let ?r = "\<lparr>inst_shape = \<lparr>inst_opcode = IntToPtr, inst_type = PointerTy,
      inst_operands = map OpConstant [ConstantInt (IntegerTy 64) (APInt 64 42)]\<rparr>,
      inst_parent = Some 0\<rparr>"
  have a: "inst_shape ?r = \<lparr>inst_opcode = IntToPtr, inst_type = PointerTy,
      inst_operands = map OpConstant [ConstantInt (IntegerTy 64) (APInt 64 42)]\<rparr>"
    by simp
  have b: "serialize_inst ext0 fresh_context (inst_shape ?r) = Inr [(''operands'', JUInt 1)]"
    by (simp add: ext0_def)
  show ?thesis
    using expression_wraps_instruction_encoding [OF a b, of session0]
    by (simp add: cast42_def)
qed

text \<open>
  Claim C10. \<^verbatim>\<open>serialize_const_expr\<close> hands the instruction encoder a context whose
  three tables are empty, in which looking up the label of any block, instruction or
  argument ends with \<^verbatim>\<open>std::out_of_range\<close>. So when the encoding of the instruction made
  from the expression needs the label of some block, instruction or argument \<open>k\<close>
  (the encoder ends with the abort of that lookup in every context where the lookup
  aborts), encoding the expression ends with that abort.
\<close>

theorem expression_encoder_gets_empty_context:
  "snd (serialize_const_expr ext t opc ops s)
     = (case serialize_inst ext \<lparr>block_labels = [], inst_labels = [], arg_labels = []\<rparr>
               \<lparr>inst_opcode = opc, inst_type = t, inst_operands = map OpConstant ops\<rparr> of
          Inl e \<Rightarrow> Inl e
        | Inr i \<Rightarrow> Inr [(''inst'', JObject i)])
   \<and> get_block \<lparr>block_labels = [], inst_labels = [], arg_labels = []\<rparr> k = Inl OutOfRange
   \<and> get_instruction \<lparr>block_labels = [], inst_labels = [], arg_labels = []\<rparr> k = Inl OutOfRange
   \<and> get_argument \<lparr>block_labels = [], inst_labels = [], arg_labels = []\<rparr> k = Inl OutOfRange
   \<and> ((\<forall>ctxt. get_block ctxt k = Inl OutOfRange \<longrightarrow>
          serialize_inst ext ctxt
            \<lparr>inst_opcode = opc, inst_type = t, inst_operands = map OpConstant ops\<rparr>
            = Inl OutOfRange)
        \<or> (\<forall>ctxt. get_instruction ctxt k = Inl OutOfRange \<longrightarrow>
          serialize_inst ext ctxt
            \<lparr>inst_opcode = opc, inst_type = t, inst_operands = map OpConstant ops\<rparr>
            = Inl OutOfRange)
        \<or> (\<forall>ctxt. get_argument ctxt k = Inl OutOfRange \<longrightarrow>
          serialize_inst ext ctxt
            \<lparr>inst_opcode = opc, inst_type = t, inst_operands = map OpConstant ops\<rparr>
            = Inl OutOfRange)
       \<longrightarrow> snd (serialize_const_expr ext t opc ops s) = Inl OutOfRange
           \<and> snd (serialize_const ext (ConstantExpr t opc ops) s) = Inl OutOfRange
           \<and> snd (serialize_constant ext (ConstantExpr t opc ops) s) = Inl OutOfRange)"
proof -
  let ?c = "\<lparr>block_labels = [], inst_labels = [], arg_labels = []\<rparr>"
  let ?i = "\<lparr>inst_opcode = opc, inst_type = t, inst_operands = map OpConstant ops\<rparr>"
  have b: "get_block ?c k = Inl OutOfRange" by (simp add: get_block_def at_def)
  have i: "get_instruction ?c k = Inl OutOfRange" by (simp add: get_instruction_def at_def)
  have a: "get_argument ?c k = Inl OutOfRange" by (simp add: get_argument_def at_def)
  have e: "snd (serialize_const_expr ext t opc ops s)
     = (case serialize_inst ext ?c ?i of Inl e \<Rightarrow> Inl e | Inr i \<Rightarrow> Inr [(''inst'', JObject i)])"
    by (simp add: snd_serialize_const_expr fresh_context_def)
  have "snd (serialize_const_expr ext t opc ops s) = Inl OutOfRange
      \<and> snd (serialize_const ext (ConstantExpr t opc ops) s) = Inl OutOfRange
      \<and> snd (serialize_constant ext (ConstantExpr t opc ops) s) = Inl OutOfRange"
    if "serialize_inst ext ?c ?i = Inl OutOfRange"
    using that e by (simp add: snd_tagged snd_serialize_constant)
  then show ?thesis using b i a e by blast
qed

theorem expression_encoder_gets_empty_context_witness:
  "snd (serialize_constant ext1 cast42 session0) = Inl OutOfRange"
proof -
  have h: "\<forall>ctxt. get_instruction ctxt 0 = Inl OutOfRange \<longrightarrow>
          serialize_inst ext1 ctxt
            \<lparr>inst_opcode = IntToPtr, inst_type = PointerTy,
             inst_operands = map OpConstant [ConstantInt (IntegerTy 64) (APInt 64 42)]\<rparr>
            = Inl OutOfRange"
    by (simp add: ext1_def)
  show ?thesis
    using h expression_encoder_gets_empty_context
      [of ext1 PointerTy IntToPtr "[ConstantInt (IntegerTy 64) (APInt 64 42)]" session0 0]
    unfolding cast42_def by blast
qed

section \<open>The module\<close>

























lemma insert_before_at:
  "p \<in> set xs \<Longrightarrow>
   \<exists>us vs. xs = us @ p # vs \<and> p \<notin> set us
      \<and> insert_before p x xs = us @ x # p # vs"
proof -
  assume "p \<in> set xs"
  then have ne: "dropWhile (\<lambda>y. y \<noteq> p) xs \<noteq> []" by auto
  then obtain vs where d: "dropWhile (\<lambda>y. y \<noteq> p) xs = hd (dropWhile (\<lambda>y. y \<noteq> p) xs) # vs"
    by (cases "dropWhile (\<lambda>y. y \<noteq> p) xs") auto
  have "hd (dropWhile (\<lambda>y. y \<noteq> p) xs) = p"
    using hd_dropWhile [OF ne] by simp
  then have d': "dropWhile (\<lambda>y. y \<noteq> p) xs = p # vs" using d by simp
  have "xs = takeWhile (\<lambda>y. y \<noteq> p) xs @ p # vs"
    using takeWhile_dropWhile_id [of "\<lambda>y. y \<noteq> p" xs] d' by simp
  moreover have "p \<notin> set (takeWhile (\<lambda>y. y \<noteq> p) xs)"
    by (auto dest: set_takeWhileD)
  moreover have "insert_before p x xs = takeWhile (\<lambda>y. y \<noteq> p) xs @ x # p # vs"
    using d' by (simp add: insert_before_def)
  ultimately show ?thesis by blast
qed













end
